theory Spec2Isabelle
  imports Main "HOL-Library.Word"
begin

section \<open>JavaScript strings and values\<close>

text \<open>
  A JavaScript string is a sequence of UTF-16 code units; \<open>length\<close>, \<open>trim\<close> and the
  regular expressions of \<open>server.js\<close> all work on code units. ASCII text is written
  with \<open>js\<close>; every other code unit is written as a number.
\<close>

type_synonym code_unit = "16 word"
type_synonym jsstring = "code_unit list"

definition js :: "string \<Rightarrow> jsstring" where
  "js s = map (\<lambda>c. of_nat (of_char c)) s"

text \<open>
  The characters matched by \<open>\s\<close> and removed by \<open>String.prototype.trim\<close>: the
  WhiteSpace and LineTerminator productions of ECMAScript.
\<close>

definition is_white_space :: "code_unit \<Rightarrow> bool" where
  "is_white_space c =
     (c = 0x09 \<or> c = 0x0A \<or> c = 0x0B \<or> c = 0x0C \<or> c = 0x0D \<or> c = 0x20 \<or> c = 0xA0
      \<or> c = 0x1680 \<or> (0x2000 \<le> c \<and> c \<le> 0x200A) \<or> c = 0x2028 \<or> c = 0x2029
      \<or> c = 0x202F \<or> c = 0x205F \<or> c = 0x3000 \<or> c = 0xFEFF)"

definition trim :: "jsstring \<Rightarrow> jsstring" where
  "trim s = rev (dropWhile is_white_space (rev (dropWhile is_white_space s)))"

text \<open>
  The values a parsed request body, or a provider's answer, can hold. \<open>JUndefined\<close>
  is what reading an absent property gives. Numbers are the 32-bit signed integers
  (a word read by \<open>sint\<close>), a range in which JavaScript prints a number as its plain
  decimal digits.
\<close>

datatype jsval =
    JUndefined
  | JNull
  | JBool bool
  | JNum "32 word"
  | JStr jsstring
  | JArr "jsval list"
  | JObj "(jsstring \<times> jsval) list"

text \<open>ToBoolean, as used by \<open>!nome\<close>, \<open>!email\<close> and \<open>if (error)\<close>.\<close>

fun truthy :: "jsval \<Rightarrow> bool" where
  "truthy JUndefined = False"
| "truthy JNull = False"
| "truthy (JBool b) = b"
| "truthy (JNum n) = (n \<noteq> 0)"
| "truthy (JStr s) = (s \<noteq> [])"
| "truthy (JArr vs) = True"
| "truthy (JObj kvs) = True"

text \<open>
  Number to string, for an integer in the range of the model: its decimal digits, with
  a minus sign when negative.
\<close>

fun digits :: "nat \<Rightarrow> jsstring" where
  "digits n = (if n < 10 then [of_nat (48 + n)] else digits (n div 10) @ [of_nat (48 + n mod 10)])"

definition number_to_string :: "int \<Rightarrow> jsstring" where
  "number_to_string n = (if n < 0 then js ''-'' @ digits (nat (- n)) else digits (nat n))"

text \<open>
  ToString. A plain object prints as \<open>[object Object]\<close> through the inherited
  \<open>toString\<close>; an own \<open>toString\<close> property of a parsed object is never callable, and
  the conversion then throws a TypeError (\<open>None\<close>). An array joins its elements with
  commas, \<open>null\<close> and \<open>undefined\<close> elements printing as nothing.
\<close>

fun to_string :: "jsval \<Rightarrow> jsstring option"
  and join_elements :: "jsval list \<Rightarrow> jsstring option" where
  "to_string JUndefined = Some (js ''undefined'')"
| "to_string JNull = Some (js ''null'')"
| "to_string (JBool b) = Some (if b then js ''true'' else js ''false'')"
| "to_string (JNum n) = Some (number_to_string (sint n))"
| "to_string (JStr s) = Some s"
| "to_string (JArr vs) = join_elements vs"
| "to_string (JObj kvs) =
     (if js ''toString'' \<in> fst ` set kvs then None else Some (js ''[object Object]''))"
| "join_elements [] = Some []"
| "join_elements (v # vs) =
     (case (if v = JUndefined \<or> v = JNull then Some [] else to_string v) of
        None \<Rightarrow> None
      | Some a \<Rightarrow>
          (if vs = [] then Some a
           else (case join_elements vs of
                   None \<Rightarrow> None
                 | Some b \<Rightarrow> Some (a @ js '','' @ b))))"

text \<open>
  Reading a property. The properties read by the handler (\<open>data\<close>, \<open>error\<close>,
  \<open>message\<close>, \<open>id\<close>) exist on no primitive, array or prototype, so only an object's
  own entries can answer; reading from \<open>null\<close> or \<open>undefined\<close> throws (\<open>None\<close>).
\<close>

fun get_prop :: "jsval \<Rightarrow> jsstring \<Rightarrow> jsval option" where
  "get_prop JUndefined k = None"
| "get_prop JNull k = None"
| "get_prop (JObj kvs) k = Some (case map_of kvs k of None \<Rightarrow> JUndefined | Some v \<Rightarrow> v)"
| "get_prop v k = Some JUndefined"

text \<open>
  The method call \<open>v.trim()\<close>: only a string has the method; on every other value
  \<open>v.trim\<close> is not a function and the call throws a TypeError (\<open>None\<close>).
\<close>

fun call_trim :: "jsval \<Rightarrow> jsstring option" where
  "call_trim (JStr s) = Some (trim s)"
| "call_trim v = None"

section \<open>Regular expressions\<close>

text \<open>
  A pattern anchored by \<open>^\<close> and \<open>$\<close> whose body is a sequence of single-character
  atoms, each possibly under \<open>+\<close>. \<open>regex_test\<close> is the backtracking matcher: a
  \<open>+\<close> takes one character and then either goes on taking or hands over to the rest
  of the pattern; the end of the pattern matches only the end of the input.
\<close>

datatype char_class = Literal code_unit | NotSpaceNorAt

datatype atom = One char_class | Plus char_class

fun in_class :: "char_class \<Rightarrow> code_unit \<Rightarrow> bool" where
  "in_class (Literal l) c = (c = l)"
| "in_class NotSpaceNorAt c = (\<not> is_white_space c \<and> c \<noteq> 0x40)"

fun regex_test :: "atom list \<Rightarrow> jsstring \<Rightarrow> bool" where
  "regex_test [] s = (s = [])"
| "regex_test (One p # r) [] = False"
| "regex_test (One p # r) (c # cs) = (in_class p c \<and> regex_test r cs)"
| "regex_test (Plus p # r) [] = False"
| "regex_test (Plus p # r) (c # cs) =
     (in_class p c \<and> (regex_test (Plus p # r) cs \<or> regex_test r cs))"

text \<open>\<^verbatim>\<open>const emailRegex = /^[^\s@]+@[^\s@]+\.[^\s@]+$/;\<close>\<close>

definition emailRegex :: "atom list" where
  "emailRegex =
     [Plus NotSpaceNorAt, One (Literal 0x40), Plus NotSpaceNorAt, One (Literal 0x2E),
      Plus NotSpaceNorAt]"

section \<open>Template substitution\<close>

text \<open>
  \<open>str.replace(/{{nome}}/g, replacement)\<close>. The pattern is the literal text
  \<open>{{nome}}\<close>; the scan goes left to right and resumes after each match. The
  replacement is a string, so each match is replaced by its expansion
  (GetSubstitution): \<open>$$\<close> is a dollar sign, \<open>$&\<close> the matched text, \<open>$`\<close> the text
  before the match, \<open>$'\<close> the text after it; the pattern has no capture group, so every
  other \<open>$\<close> stays as it is.
\<close>

definition placeholder :: jsstring where
  "placeholder = js ''{{nome}}''"

fun get_substitution :: "jsstring \<Rightarrow> jsstring \<Rightarrow> jsstring \<Rightarrow> jsstring \<Rightarrow> jsstring" where
  "get_substitution matched preceding following [] = []"
| "get_substitution matched preceding following [c] = [c]"
| "get_substitution matched preceding following (c # d # r) =
     (if c = 0x24 \<and> d = 0x24 then 0x24 # get_substitution matched preceding following r
      else if c = 0x24 \<and> d = 0x26 then matched @ get_substitution matched preceding following r
      else if c = 0x24 \<and> d = 0x60 then preceding @ get_substitution matched preceding following r
      else if c = 0x24 \<and> d = 0x27 then following @ get_substitution matched preceding following r
      else c # get_substitution matched preceding following (d # r))"

function replace_from :: "jsstring \<Rightarrow> jsstring \<Rightarrow> jsstring \<Rightarrow> jsstring" where
  "replace_from replacement preceding [] = []"
| "replace_from replacement preceding (c # cs) =
     (if take 8 (c # cs) = placeholder
      then get_substitution placeholder preceding (drop 8 (c # cs)) replacement
           @ replace_from replacement (preceding @ placeholder) (drop 8 (c # cs))
      else c # replace_from replacement (preceding @ [c]) cs)"
  by pat_completeness auto
termination
  by (relation "measure (\<lambda>(r, b, s). length s)") auto

definition replace_nome :: "jsstring \<Rightarrow> jsstring \<Rightarrow> jsstring" where
  "replace_nome str replacement = replace_from replacement [] str"

section \<open>The templates of \<open>mensagem.js\<close>\<close>

record template =
  assunto :: jsstring
  texto :: jsstring
  html :: jsstring

text \<open>
  The text of the HTML template before and after its one \<open>{{nome}}\<close>. Line ends are
  line feeds (0xA).
\<close>

definition html_head :: jsstring where
  "html_head =
   [0xA] @ js ''<!DOCTYPE html>'' @ [0xA] @ js ''<html lang='' @ [0x22] @ js ''pt-BR'' @
   [0x22] @ js ''>'' @ [0xA] @ js ''<head>'' @ [0xA] @ js ''    <meta charset='' @ [0x22] @
   js ''UTF-8'' @ [0x22] @ js ''>'' @ [0xA] @ js ''    <meta name='' @ [0x22] @
   js ''viewport'' @ [0x22] @ js '' content='' @ [0x22] @
   js ''width=device-width, initial-scale=1.0'' @ [0x22] @ js ''>'' @ [0xA] @
   js ''    <title>Bem-vindo(a)!</title>'' @ [0xA] @ js ''    <style>'' @ [0xA] @
   js ''        body {'' @ [0xA] @ js ''            font-family: '' @ [0x27] @ js ''Arial'' @
   [0x27] @ js '', sans-serif;'' @ [0xA] @ js ''            line-height: 1.6;'' @ [0xA] @
   js ''            color: #333;'' @ [0xA] @ js ''            max-width: 600px;'' @ [0xA] @
   js ''            margin: 0 auto;'' @ [0xA] @ js ''            padding: 20px;'' @ [0xA] @
   js ''            background-color: #f4f4f4;'' @ [0xA] @ js ''        }'' @ [0xA] @
   js ''        .container {'' @ [0xA] @ js ''            background-color: white;'' @ [0xA] @
   js ''            padding: 30px;'' @ [0xA] @ js ''            border-radius: 10px;'' @
   [0xA] @ js ''            box-shadow: 0 2px 10px rgba(0,0,0,0.1);'' @ [0xA] @
   js ''        }'' @ [0xA] @ js ''        .header {'' @ [0xA] @
   js ''            text-align: center;'' @ [0xA] @
   js ''            border-bottom: 2px solid #58A6FF;'' @ [0xA] @
   js ''            padding-bottom: 20px;'' @ [0xA] @
   js ''            margin-bottom: 30px;'' @ [0xA] @ js ''        }'' @ [0xA] @
   js ''        .header h1 {'' @ [0xA] @ js ''            color: #58A6FF;'' @ [0xA] @
   js ''            margin: 0;'' @ [0xA] @ js ''        }'' @ [0xA] @
   js ''        .content {'' @ [0xA] @ js ''            font-size: 16px;'' @ [0xA] @
   js ''            line-height: 1.8;'' @ [0xA] @ js ''        }'' @ [0xA] @
   js ''        .footer {'' @ [0xA] @ js ''            text-align: center;'' @ [0xA] @
   js ''            margin-top: 30px;'' @ [0xA] @ js ''            padding-top: 20px;'' @
   [0xA] @ js ''            border-top: 1px solid #eee;'' @ [0xA] @
   js ''            color: #666;'' @ [0xA] @ js ''            font-size: 14px;'' @ [0xA] @
   js ''        }'' @ [0xA] @ js ''        .highlight {'' @ [0xA] @
   js ''            color: #58A6FF;'' @ [0xA] @ js ''            font-weight: bold;'' @
   [0xA] @ js ''        }'' @ [0xA] @ js ''    </style>'' @ [0xA] @ js ''</head>'' @ [0xA] @
   js ''<body>'' @ [0xA] @ js ''    <div class='' @ [0x22] @ js ''container'' @ [0x22] @
   js ''>'' @ [0xA] @ js ''        <div class='' @ [0x22] @ js ''header'' @ [0x22] @
   js ''>'' @ [0xA] @ js ''            <h1>'' @ [0xD83C, 0xDF89] @
   js '' Bem-vindo(a) ao DevTogheter!</h1>'' @ [0xA] @ js ''        </div>'' @ [0xA] @
   js ''        '' @ [0xA] @ js ''        <div class='' @ [0x22] @ js ''content'' @ [0x22] @
   js ''>'' @ [0xA] @ js ''            <p>Ol'' @ [0xE1] @ js '', <span class='' @ [0x22] @
   js ''highlight'' @ [0x22] @ js ''>''"

definition html_tail :: jsstring where
  "html_tail =
   js ''</span>!</p>'' @ [0xA] @ js ''            '' @ [0xA] @
   js ''            <p>Seja bem-vindo(a) a nosso comunidade de progr'' @ js ''ama'' @
   [0xE7, 0xE3] @ js ''o. Estamos felizes em t'' @ [0xEA] @ js ''-lo(a) conosco.</p>'' @
   [0xA] @ js ''            '' @ [0xA] @
   js ''            <p>Esperamos que tenha uma excelente experi'' @ [0xEA] @
   js ''ncia!</p>'' @ [0xA] @ js ''            '' @ [0xA] @
   js ''            <p>Atenciosamente,<br>'' @ [0xA] @
   js ''            <strong>Equipe DevTogheter</strong></p>'' @ [0xA] @
   js ''        </div>'' @ [0xA] @ js ''        '' @ [0xA] @ js ''        <div class='' @
   [0x22] @ js ''footer'' @ [0x22] @ js ''>'' @ [0xA] @ js ''            <p>Este '' @ [0xE9] @
   js '' um email autom'' @ [0xE1] @ js ''tico, por favor n'' @ [0xE3] @
   js ''o responda.</p>'' @ [0xA] @ js ''            <p>'' @ [0xA9] @
   js '' 2025 DevTogheter</p>'' @ [0xA] @ js ''        </div>'' @ [0xA] @ js ''    </div>'' @
   [0xA] @ js ''</body>'' @ [0xA] @ js ''</html>''"

definition mensagem :: template where
  "mensagem =
     \<lparr>assunto = js ''Bem-vindo(a) ao DevTogheter'',
      texto = js ''Ol'' @ [0xE1] @ js '', '' @ js ''{{nome}}'' @ js ''! '' @ [0xA] @ [0xA] @
   js ''Seja bem-vindo(a) ao nosso sistema. Estamos felizes em t'' @ [0xEA] @
   js ''-lo(a) conosco.'' @ [0xA] @ [0xA] @ js ''Esperamos que tenha uma excelente experi'' @
   [0xEA] @ js ''ncia!'' @ [0xA] @ [0xA] @ js ''Atenciosamente,'' @ [0xA] @
   js ''Equipe do Sistema'',
      html = html_head @ js ''{{nome}}'' @ html_tail\<rparr>"

section \<open>The handler of POST /send-welcome\<close>

text \<open>
  The request body as the body parsers deliver it, an object, read by
  \<open>const { nome, email } = req.body\<close>: an absent field reads as \<open>JUndefined\<close>.
\<close>

record request_body =
  nome :: jsval
  email :: jsval

text \<open>The argument of \<open>resend.emails.send\<close>.\<close>

record message =
  msg_from :: jsval
  msg_to :: "jsstring list"
  msg_subject :: jsstring
  msg_text :: jsstring
  msg_html :: jsstring

text \<open>
  What awaiting the send capability gives: the call throws (or its promise rejects) with
  some value, or it resolves to a value, from which \<open>data\<close> and \<open>error\<close> are read.
\<close>

datatype send_result = Rejects jsval | Resolves jsval

datatype thrown = TypeError | Error jsstring | Rejected jsval

datatype logged = Value jsval | Exception thrown

text \<open>What the handler does besides answering: console output and the send call.\<close>

datatype event =
    ConsoleLog jsstring
  | ConsoleError jsstring logged
  | SendCall message

record response =
  status :: nat
  body :: "(string \<times> jsval) list"

text \<open>\<open>res.status(st).json(obj)\<close>: a property whose value is undefined is not serialised.\<close>

definition json_response :: "nat \<Rightarrow> (string \<times> jsval) list \<Rightarrow> response" where
  "json_response st obj = \<lparr>status = st, body = filter (\<lambda>kv. snd kv \<noteq> JUndefined) obj\<rparr>"

text \<open>
  How a stretch of the handler ends: it runs to its end with a value, it returns from
  the handler early having sent a response, or it throws into the \<open>catch\<close> block.
\<close>

datatype 'a completion = Normal 'a | Return response | Throw thrown

text \<open>The three 400 responses of section 7.2 and the 500 response of the \<open>catch\<close> block.\<close>

definition missing_field :: response where
  "missing_field =
     json_response 400
       [(''sucesso'', JBool False),
        (''mensagem'', JStr (js ''Nome e email s'' @ [0xE3] @ js ''o obrigat'' @ [0xF3] @ js ''rios''))]"

definition invalid_email_format :: response where
  "invalid_email_format =
     json_response 400
       [(''sucesso'', JBool False),
        (''mensagem'', JStr (js ''Formato de email inv'' @ [0xE1] @ js ''lido''))]"

definition name_too_short :: response where
  "name_too_short =
     json_response 400
       [(''sucesso'', JBool False),
        (''mensagem'', JStr (js ''Nome deve ter pelo menos 2 caracteres''))]"

definition internal_error :: response where
  "internal_error =
     json_response 500
       [(''sucesso'', JBool False),
        (''mensagem'', JStr (js ''Erro interno do servidor ao enviar email''))]"

text \<open>
  Section 7.2 of the handler: the three checks, each with its early return.
  \<open>emailRegex.test(email)\<close> converts its argument to a string first, and
  \<open>nome.trim()\<close> throws on a value that is not a string.
\<close>

definition validacoes :: "request_body \<Rightarrow> unit completion" where
  "validacoes b =
     (if \<not> truthy (nome b) \<or> \<not> truthy (email b) then Return missing_field
      else (case to_string (email b) of
              None \<Rightarrow> Throw TypeError
            | Some e \<Rightarrow>
                if \<not> regex_test emailRegex e then Return invalid_email_format
                else (case call_trim (nome b) of
                        None \<Rightarrow> Throw TypeError
                      | Some t \<Rightarrow>
                          if length t < 2 then Return name_too_short else Normal ())))"

text \<open>
  Section 7.3: the subject is taken as it is; the text and the HTML get every
  \<open>{{nome}}\<close> replaced, the replacement being \<open>nome.trim()\<close>.
\<close>

definition personalizar :: "template \<Rightarrow> jsstring \<Rightarrow> template" where
  "personalizar m trimmed =
     \<lparr>assunto = assunto m,
      texto = replace_nome (texto m) trimmed,
      html = replace_nome (html m) trimmed\<rparr>"

text \<open>Section 7.4: the argument of the send call, a single recipient.\<close>

definition build_message :: "jsval \<Rightarrow> jsstring \<Rightarrow> template \<Rightarrow> message" where
  "build_message from_email recipient p =
     \<lparr>msg_from = from_email, msg_to = [recipient],
      msg_subject = assunto p, msg_text = texto p, msg_html = html p\<rparr>"

text \<open>
  Sections 7.4 and 7.5, after the send call has been awaited: \<open>data\<close> and \<open>error\<close>
  are read from the result, a truthy \<open>error\<close> is logged and thrown as a new Error,
  otherwise the id is logged and the success response is sent by \<open>res.json\<close>, with
  the default status 200, as the last statement of the \<open>try\<close> block.
\<close>

definition after_send :: "jsstring \<Rightarrow> send_result \<Rightarrow> event list \<times> response completion" where
  "after_send nome_str r =
     (case r of
        Rejects x \<Rightarrow> ([], Throw (Rejected x))
      | Resolves v \<Rightarrow>
          (case (get_prop v (js ''data''), get_prop v (js ''error'')) of
             (Some dat, Some err) \<Rightarrow>
               if truthy err
               then ([ConsoleError ([0x274C] @ js '' Erro ao enviar email:'') (Value err)],
                     (case get_prop err (js ''message'') of
                        None \<Rightarrow> Throw TypeError
                      | Some msg \<Rightarrow>
                          (case to_string msg of
                             None \<Rightarrow> Throw TypeError
                           | Some s \<Rightarrow> Throw (Error (js ''Falha no envio: '' @ s)))))
               else (case get_prop dat (js ''id'') of
                       None \<Rightarrow> ([], Throw TypeError)
                     | Some i \<Rightarrow>
                         (case to_string i of
                            None \<Rightarrow> ([], Throw TypeError)
                          | Some s \<Rightarrow>
                              ([ConsoleLog ([0x2705] @ js '' Email enviado com sucesso! ID: '' @ s)],
                               Normal (json_response 200
                                 [(''sucesso'', JBool True),
                                  (''mensagem'', JStr (js ''Boas-vindas enviadas para '' @ nome_str
                                                      @ js ''! Verifique seu email.'')),
                                  (''emailId'', i)]))))
           | _ \<Rightarrow> ([], Throw TypeError)))"

text \<open>
  The body of the \<open>try\<close> block. \<open>from_email\<close> is \<open>process.env.FROM_EMAIL\<close>, \<open>send\<close>
  is \<open>resend.emails.send\<close> and \<open>m\<close> the imported template module.
\<close>

definition try_block ::
  "template \<Rightarrow> jsval \<Rightarrow> (message \<Rightarrow> send_result) \<Rightarrow> request_body
     \<Rightarrow> event list \<times> response completion" where
  "try_block m from_email send b =
     (case validacoes b of
        Return r \<Rightarrow> ([], Return r)
      | Throw x \<Rightarrow> ([], Throw x)
      | Normal u \<Rightarrow>
          (case (to_string (nome b), to_string (email b), call_trim (nome b)) of
             (Some nome_str, Some email_str, Some trimmed) \<Rightarrow>
               (let log1 = ConsoleLog ([0xD83D, 0xDCE7] @ js '' Enviando boas-vindas para: '' @ nome_str
                                       @ js '' ('' @ email_str @ js '')'');
                    p = personalizar m trimmed
                in (case call_trim (email b) of
                      None \<Rightarrow> ([log1], Throw TypeError)
                    | Some recipient \<Rightarrow>
                        (let msg = build_message from_email recipient p;
                             (evs, c) = after_send nome_str (send msg)
                         in ([log1, SendCall msg] @ evs, c))))
           | _ \<Rightarrow> ([], Throw TypeError)))"

text \<open>
  The handler: the \<open>try\<close> block, and the \<open>catch\<close> block that logs whatever was thrown
  and answers 500 with a fixed message.
\<close>

record outcome =
  answer :: response
  events :: "event list"

definition send_welcome ::
  "template \<Rightarrow> jsval \<Rightarrow> (message \<Rightarrow> send_result) \<Rightarrow> request_body \<Rightarrow> outcome" where
  "send_welcome m from_email send b =
     (case try_block m from_email send b of
        (evs, Normal r) \<Rightarrow> \<lparr>answer = r, events = evs\<rparr>
      | (evs, Return r) \<Rightarrow> \<lparr>answer = r, events = evs\<rparr>
      | (evs, Throw x) \<Rightarrow>
          \<lparr>answer = internal_error,
           events = evs @ [ConsoleError ([0x274C] @ js '' Erro no servidor:'') (Exception x)]\<rparr>)"

section \<open>Notions used to state the properties\<close>

text \<open>
  The shape of an accepted address in words: a local part, \<open>@\<close>, a domain, a dot and a
  suffix, the three parts non-empty and free of white space and of \<open>@\<close>.
\<close>

definition email_shape :: "jsstring \<Rightarrow> bool" where
  "email_shape e =
     (\<exists>l d t. e = l @ [0x40] @ d @ [0x2E] @ t \<and> l \<noteq> [] \<and> d \<noteq> [] \<and> t \<noteq> []
        \<and> (\<forall>c \<in> set (l @ d @ t). \<not> is_white_space c \<and> c \<noteq> 0x40))"

text \<open>
  The three rules in the words of the specification, each taken alone: a field is
  missing when it is absent or is a string that is empty once trimmed; the email is
  badly formed when it is not a string of the shape above; the name is too short when
  it is not a string whose trimmed length is at least 2.
\<close>

datatype reason = MissingField | InvalidEmailFormat | NameTooShort

fun blank :: "jsval \<Rightarrow> bool" where
  "blank JUndefined = True"
| "blank (JStr s) = (trim s = [])"
| "blank v = False"

fun spec_violated :: "request_body \<Rightarrow> reason \<Rightarrow> bool" where
  "spec_violated b MissingField = (blank (nome b) \<or> blank (email b))"
| "spec_violated b InvalidEmailFormat =
     (case email b of JStr e \<Rightarrow> \<not> email_shape e | _ \<Rightarrow> True)"
| "spec_violated b NameTooShort =
     (case nome b of JStr s \<Rightarrow> length (trim s) < 2 | _ \<Rightarrow> True)"

text \<open>
  The three rules as the handler of section 7.2 tests them, each taken alone: a field
  is missing when it is falsy (absent, \<open>null\<close>, \<open>false\<close>, zero or the empty string,
  with no trimming); the email is badly formed when its text fails \<open>emailRegex\<close>; the
  name is too short when \<open>nome.trim()\<close> has length below 2. Then the response that
  goes with each rule, and the list of all the rules a body breaks, in the handler's
  order.
\<close>

fun violated :: "request_body \<Rightarrow> reason \<Rightarrow> bool" where
  "violated b MissingField = (\<not> truthy (nome b) \<or> \<not> truthy (email b))"
| "violated b InvalidEmailFormat =
     (case to_string (email b) of None \<Rightarrow> True | Some e \<Rightarrow> \<not> regex_test emailRegex e)"
| "violated b NameTooShort =
     (case call_trim (nome b) of None \<Rightarrow> False | Some t \<Rightarrow> length t < 2)"

fun reply :: "reason \<Rightarrow> response" where
  "reply MissingField = missing_field"
| "reply InvalidEmailFormat = invalid_email_format"
| "reply NameTooShort = name_too_short"

definition violations :: "request_body \<Rightarrow> reason list" where
  "violations b = filter (violated b) [MissingField, InvalidEmailFormat, NameTooShort]"

text \<open>
  \<open>occurs tok s\<close>: the text \<open>tok\<close> occurs somewhere in \<open>s\<close>. \<open>join_with sep ps\<close> glues
  the pieces \<open>ps\<close> with \<open>sep\<close> between neighbours. Every placeholder of \<open>str\<close> has been
  replaced by \<open>name\<close> in \<open>result\<close> when \<open>str\<close> is some placeholder-free pieces glued
  with the placeholder and \<open>result\<close> is the same pieces glued with \<open>name\<close>.
\<close>

fun occurs :: "jsstring \<Rightarrow> jsstring \<Rightarrow> bool" where
  "occurs tok [] = (tok = [])"
| "occurs tok (c # cs) = (take (length tok) (c # cs) = tok \<or> occurs tok cs)"

fun join_with :: "jsstring \<Rightarrow> jsstring list \<Rightarrow> jsstring" where
  "join_with sep [] = []"
| "join_with sep [p] = p"
| "join_with sep (p # q # ps) = p @ sep @ join_with sep (q # ps)"

definition every_placeholder_replaced :: "jsstring \<Rightarrow> jsstring \<Rightarrow> jsstring \<Rightarrow> bool" where
  "every_placeholder_replaced str name result =
     (\<exists>ps. ps \<noteq> [] \<and> (\<forall>p \<in> set ps. \<not> occurs placeholder p)
         \<and> str = join_with placeholder ps \<and> result = join_with name ps)"

text \<open>
  The two ways a send fails for the handler (the call throws, or the awaited result
  carries a truthy \<open>error\<close>), and a send that succeeds with the message id \<open>i\<close>.
\<close>

definition send_failed :: "send_result \<Rightarrow> bool" where
  "send_failed r =
     (case r of
        Rejects x \<Rightarrow> True
      | Resolves v \<Rightarrow> (case get_prop v (js ''error'') of None \<Rightarrow> False | Some err \<Rightarrow> truthy err))"

definition succeeds_with :: "send_result \<Rightarrow> jsstring \<Rightarrow> bool" where
  "succeeds_with r i =
     (case r of
        Rejects x \<Rightarrow> False
      | Resolves v \<Rightarrow>
          (case (get_prop v (js ''data''), get_prop v (js ''error'')) of
             (Some dat, Some err) \<Rightarrow> \<not> truthy err \<and> get_prop dat (js ''id'') = Some (JStr i)
           | _ \<Rightarrow> False))"

text \<open>
  Stub send capabilities for the examples: one that throws, one that answers with an
  error object, one that always succeeds with the id \<open>abc123\<close>; and a sender address.
\<close>

definition stub_throws :: "message \<Rightarrow> send_result" where
  "stub_throws msg = Rejects (JStr (js ''provider down''))"

definition stub_error :: "message \<Rightarrow> send_result" where
  "stub_error msg =
     Resolves (JObj [(js ''data'', JNull),
                     (js ''error'', JObj [(js ''message'', JStr (js ''invalid api key''))])])"

definition stub_abc123 :: "message \<Rightarrow> send_result" where
  "stub_abc123 msg =
     Resolves (JObj [(js ''data'', JObj [(js ''id'', JStr (js ''abc123''))]),
                     (js ''error'', JNull)])"

definition from_env :: jsval where
  "from_env = JStr (js ''equipe@example.com'')"

section \<open>The regular expression and the shape it accepts\<close>

lemma regex_test_Plus:
  "regex_test (Plus p # r) s =
     (\<exists>a b. s = a @ b \<and> a \<noteq> [] \<and> (\<forall>c \<in> set a. in_class p c) \<and> regex_test r b)"
proof (induction s)
  case Nil
  then show ?case by simp
next
  case (Cons c cs)
  show ?case
  proof
    assume "regex_test (Plus p # r) (c # cs)"
    then have c: "in_class p c" and rest: "regex_test (Plus p # r) cs \<or> regex_test r cs"
      by simp_all
    from rest show "\<exists>a b. c # cs = a @ b \<and> a \<noteq> [] \<and> (\<forall>c \<in> set a. in_class p c) \<and> regex_test r b"
    proof
      assume "regex_test (Plus p # r) cs"
      with Cons.IH obtain a b where "cs = a @ b" "\<forall>c \<in> set a. in_class p c" "regex_test r b"
        by blast
      with c have "c # cs = (c # a) @ b \<and> c # a \<noteq> [] \<and> (\<forall>x \<in> set (c # a). in_class p x) \<and> regex_test r b"
        by simp
      then show ?thesis by blast
    next
      assume "regex_test r cs"
      with c have "c # cs = [c] @ cs \<and> [c] \<noteq> [] \<and> (\<forall>x \<in> set [c]. in_class p x) \<and> regex_test r cs"
        by simp
      then show ?thesis by blast
    qed
  next
    assume "\<exists>a b. c # cs = a @ b \<and> a \<noteq> [] \<and> (\<forall>c \<in> set a. in_class p c) \<and> regex_test r b"
    then obtain a b where ab: "c # cs = a @ b" "a \<noteq> []" "\<forall>c \<in> set a. in_class p c" "regex_test r b"
      by blast
    then obtain a' where a: "a = c # a'" by (cases a) auto
    with ab have cs: "cs = a' @ b" and c: "in_class p c" and a': "\<forall>x \<in> set a'. in_class p x"
      by simp_all
    show "regex_test (Plus p # r) (c # cs)"
    proof (cases "a' = []")
      case True
      with cs ab c show ?thesis by simp
    next
      case False
      with cs a' ab(4) Cons.IH have "regex_test (Plus p # r) cs" by blast
      with c show ?thesis by simp
    qed
  qed
qed

lemma regex_test_One:
  "regex_test (One p # r) s = (\<exists>c cs. s = c # cs \<and> in_class p c \<and> regex_test r cs)"
  by (cases s) simp_all

lemma emailRegex_shape: "regex_test emailRegex e = email_shape e"
proof
  assume "regex_test emailRegex e"
  then obtain l r1 where 1: "e = l @ r1" "l \<noteq> []" "\<forall>c \<in> set l. in_class NotSpaceNorAt c"
      "regex_test [One (Literal 0x40), Plus NotSpaceNorAt, One (Literal 0x2E), Plus NotSpaceNorAt] r1"
    unfolding emailRegex_def regex_test_Plus by blast
  from 1(4) obtain r2 where 2: "r1 = 0x40 # r2"
      "regex_test [Plus NotSpaceNorAt, One (Literal 0x2E), Plus NotSpaceNorAt] r2"
    unfolding regex_test_One by auto
  from 2(2) obtain d r3 where 3: "r2 = d @ r3" "d \<noteq> []" "\<forall>c \<in> set d. in_class NotSpaceNorAt c"
      "regex_test [One (Literal 0x2E), Plus NotSpaceNorAt] r3"
    unfolding regex_test_Plus by blast
  from 3(4) obtain r4 where 4: "r3 = 0x2E # r4" "regex_test [Plus NotSpaceNorAt] r4"
    unfolding regex_test_One by auto
  from 4(2) obtain t r5 where 5: "r4 = t @ r5" "t \<noteq> []" "\<forall>c \<in> set t. in_class NotSpaceNorAt c"
      "regex_test [] r5"
    unfolding regex_test_Plus by blast
  from 5(4) have 6: "r5 = []" by simp
  have "e = l @ [0x40] @ d @ [0x2E] @ t"
    using 1(1) 2(1) 3(1) 4(1) 5(1) 6 by simp
  moreover have "\<forall>c \<in> set (l @ d @ t). \<not> is_white_space c \<and> c \<noteq> 0x40"
    using 1(3) 3(3) 5(3) by auto
  ultimately show "email_shape e"
    unfolding email_shape_def using 1(2) 3(2) 5(2) by blast
next
  assume "email_shape e"
  then obtain l d t where e: "e = l @ [0x40] @ d @ [0x2E] @ t"
      and ne: "l \<noteq> []" "d \<noteq> []" "t \<noteq> []"
      and cl: "\<forall>c \<in> set (l @ d @ t). \<not> is_white_space c \<and> c \<noteq> 0x40"
    unfolding email_shape_def by blast
  from cl have l: "\<forall>c \<in> set l. in_class NotSpaceNorAt c"
    and d: "\<forall>c \<in> set d. in_class NotSpaceNorAt c"
    and t: "\<forall>c \<in> set t. in_class NotSpaceNorAt c"
    by auto
  have "t = t @ [] \<and> t \<noteq> [] \<and> (\<forall>c \<in> set t. in_class NotSpaceNorAt c) \<and> regex_test [] []"
    using ne t by simp
  then have 5: "regex_test [Plus NotSpaceNorAt] t"
    unfolding regex_test_Plus [of NotSpaceNorAt "[]" t] by blast
  then have 4: "regex_test [One (Literal 0x2E), Plus NotSpaceNorAt] (0x2E # t)"
    by simp
  then have 3: "regex_test [Plus NotSpaceNorAt, One (Literal 0x2E), Plus NotSpaceNorAt] (d @ 0x2E # t)"
    unfolding regex_test_Plus [of NotSpaceNorAt _ "d @ 0x2E # t"] using ne d by blast
  then have 2: "regex_test [One (Literal 0x40), Plus NotSpaceNorAt, One (Literal 0x2E), Plus NotSpaceNorAt]
      (0x40 # d @ 0x2E # t)"
    by simp
  then have "regex_test emailRegex (l @ 0x40 # d @ 0x2E # t)"
    unfolding emailRegex_def regex_test_Plus [of NotSpaceNorAt _ "l @ 0x40 # d @ 0x2E # t"]
    using ne l by blast
  then show "regex_test emailRegex e" using e by simp
qed

section \<open>Facts about the responses and the handler\<close>

lemma responses_distinct:
  "missing_field \<noteq> invalid_email_format" "missing_field \<noteq> name_too_short"
  "invalid_email_format \<noteq> name_too_short"
  by (simp_all add: missing_field_def invalid_email_format_def name_too_short_def
        json_response_def js_def)

lemma status_400:
  "status missing_field = 400" "status invalid_email_format = 400" "status name_too_short = 400"
  by (simp_all add: missing_field_def invalid_email_format_def name_too_short_def json_response_def)

lemma status_internal_error: "status internal_error = 500"
  by (simp add: internal_error_def json_response_def)

lemma send_welcome_Return:
  "validacoes b = Return r \<Longrightarrow> send_welcome m f send b = \<lparr>answer = r, events = []\<rparr>"
  by (simp add: send_welcome_def try_block_def)

lemma send_welcome_Throw:
  "validacoes b = Throw x \<Longrightarrow>
   send_welcome m f send b =
     \<lparr>answer = internal_error,
      events = [ConsoleError ([0x274C] @ js '' Erro no servidor:'') (Exception x)]\<rparr>"
  by (simp add: send_welcome_def try_block_def)

lemma after_send_status:
  "after_send n r = (evs, c) \<Longrightarrow> c = Normal a \<Longrightarrow> status a = 200"
  by (auto simp: after_send_def json_response_def split: send_result.splits option.splits if_splits)

lemma after_send_not_Return: "after_send n r = (evs, c) \<Longrightarrow> c \<noteq> Return a"
  by (auto simp: after_send_def split: send_result.splits option.splits if_splits)

lemma send_welcome_Normal_status:
  assumes "validacoes b = Normal ()"
  shows "status (answer (send_welcome m f send b)) = 200 \<or> status (answer (send_welcome m f send b)) = 500"
proof -
  show ?thesis
    using assms
    apply (simp add: send_welcome_def try_block_def Let_def status_internal_error split: option.splits prod.splits completion.splits)
    apply (auto dest: after_send_status after_send_not_Return)
    done
qed

lemma internal_error_distinct:
  "internal_error \<noteq> missing_field" "internal_error \<noteq> invalid_email_format"
  "internal_error \<noteq> name_too_short"
  by (simp_all add: internal_error_def missing_field_def invalid_email_format_def
        name_too_short_def json_response_def)

lemma answer_not_400_after_validation:
  assumes "validacoes b = Normal ()"
  shows "status (answer (send_welcome m f send b)) \<noteq> 400"
  using send_welcome_Normal_status [OF assms, of m f send] by auto

lemma get_prop_None: "get_prop v k = None \<Longrightarrow> get_prop v k' = None"
  by (cases v) simp_all

lemma after_send_failed:
  assumes "send_failed r"
  shows "\<exists>evs x. after_send n r = (evs, Throw x)"
proof (cases r)
  case (Rejects x)
  then show ?thesis by (simp add: after_send_def)
next
  case (Resolves v)
  with assms obtain err where err: "get_prop v (js ''error'') = Some err" "truthy err"
    by (auto simp: send_failed_def split: option.splits)
  then obtain dat where dat: "get_prop v (js ''data'') = Some dat"
    using get_prop_None [of v "js ''data''" "js ''error''"] by (cases "get_prop v (js ''data'')") auto
  show ?thesis
    using Resolves err dat by (auto simp: after_send_def split: option.splits)
qed

lemma sent_message:
  assumes "validacoes b = Normal ()" and "nome b = JStr n" and "email b = JStr e"
  shows "events (send_welcome m from_email send b) ! 1 =
           SendCall (build_message from_email (trim e) (personalizar m (trim n)))"
  using assms
  by (auto simp: send_welcome_def try_block_def Let_def split: prod.splits completion.splits)

section \<open>Facts about the substitution\<close>

lemma occurs_iff: "occurs tok s = (\<exists>a b. s = a @ tok @ b)"
proof (induction s)
  case Nil
  then show ?case by auto
next
  case (Cons c cs)
  show ?case
  proof
    assume "occurs tok (c # cs)"
    then consider "take (length tok) (c # cs) = tok" | "occurs tok cs" by auto
    then show "\<exists>a b. c # cs = a @ tok @ b"
    proof cases
      case 1
      then have "c # cs = [] @ tok @ drop (length tok) (c # cs)"
        by (metis append_Nil append_take_drop_id)
      then show ?thesis by blast
    next
      case 2
      with Cons.IH obtain a b where "cs = a @ tok @ b" by blast
      then have "c # cs = (c # a) @ tok @ b" by simp
      then show ?thesis by blast
    qed
  next
    assume "\<exists>a b. c # cs = a @ tok @ b"
    then obtain a b where ab: "c # cs = a @ tok @ b" by blast
    show "occurs tok (c # cs)"
    proof (cases a)
      case Nil
      with ab have "take (length tok) (c # cs) = tok" by simp
      then show ?thesis by simp
    next
      case (Cons x a')
      with ab have "cs = a' @ tok @ b" by simp
      with Cons.IH have "occurs tok cs" by blast
      then show ?thesis by simp
    qed
  qed
qed

lemma length_placeholder: "length placeholder = 8"
  by (simp add: placeholder_def js_def)

lemma get_substitution_no_dollar:
  "0x24 \<notin> set r \<Longrightarrow> get_substitution m p f r = r"
  by (induction m p f r rule: get_substitution.induct) auto

lemma join_with_Cons_first:
  "ps \<noteq> [] \<Longrightarrow> join_with sep ((c # hd ps) # tl ps) = c # join_with sep ps"
  by (cases ps; cases "tl ps") auto

lemma join_with_Nil_first:
  "ps \<noteq> [] \<Longrightarrow> join_with sep ([] # ps) = sep @ join_with sep ps"
  by (cases ps) simp_all

lemma replace_from_pieces:
  assumes "0x24 \<notin> set r"
  shows "\<exists>ps. ps \<noteq> [] \<and> (\<forall>p \<in> set ps. \<not> occurs placeholder p)
            \<and> s = join_with placeholder ps \<and> replace_from r pre s = join_with r ps"
  using assms
proof (induction r pre s rule: replace_from.induct)
  case (1 r pre)
  have "[[]] \<noteq> [] \<and> (\<forall>p \<in> set [[]]. \<not> occurs placeholder p)
      \<and> [] = join_with placeholder [[]] \<and> replace_from r pre [] = join_with r [[]]"
    by (simp add: placeholder_def js_def)
  then show ?case by blast
next
  case (2 r pre c cs)
  show ?case
  proof (cases "take 8 (c # cs) = placeholder")
    case True
    with "2.IH"(1) "2.prems" obtain ps where ps: "ps \<noteq> []" "\<forall>p \<in> set ps. \<not> occurs placeholder p"
        "drop 8 (c # cs) = join_with placeholder ps"
        "replace_from r (pre @ placeholder) (drop 8 (c # cs)) = join_with r ps"
      by blast
    have split: "placeholder @ drop 8 (c # cs) = c # cs"
      using True by (metis append_take_drop_id)
    have "join_with placeholder ([] # ps) = placeholder @ join_with placeholder ps"
      using ps(1) by (rule join_with_Nil_first)
    also have "\<dots> = placeholder @ drop 8 (c # cs)" using ps(3) by (simp only:)
    finally have a: "c # cs = join_with placeholder ([] # ps)" using split by (simp only:)
    have "replace_from r pre (c # cs) =
        get_substitution placeholder pre (drop 8 (c # cs)) r
          @ replace_from r (pre @ placeholder) (drop 8 (c # cs))"
      using True by (simp only: replace_from.simps if_True simp_thms)
    also have "\<dots> = r @ join_with r ps"
      using ps(4) by (simp only: get_substitution_no_dollar [OF "2.prems"])
    also have "\<dots> = join_with r ([] # ps)"
      by (simp only: join_with_Nil_first [OF ps(1)])
    finally have b: "replace_from r pre (c # cs) = join_with r ([] # ps)" .
    have "\<not> occurs placeholder []" by (simp add: placeholder_def js_def)
    with ps(2) have c: "\<forall>p \<in> set ([] # ps). \<not> occurs placeholder p" by simp
    from a b c show ?thesis by blast
  next
    case False
    with "2.IH"(2) "2.prems" obtain ps where ps: "ps \<noteq> []" "\<forall>p \<in> set ps. \<not> occurs placeholder p"
        "cs = join_with placeholder ps"
        "replace_from r (pre @ [c]) cs = join_with r ps"
      by blast
    let ?qs = "(c # hd ps) # tl ps"
    have a: "c # cs = join_with placeholder ?qs"
      using ps(1,3) by (simp add: join_with_Cons_first)
    have b: "replace_from r pre (c # cs) = join_with r ?qs"
      using False ps(1,4) by (simp add: join_with_Cons_first)
    have "\<not> occurs placeholder (c # hd ps)"
    proof
      assume "occurs placeholder (c # hd ps)"
      moreover have "\<not> occurs placeholder (hd ps)" using ps(1,2) by simp
      ultimately have t: "take 8 (c # hd ps) = placeholder" by (simp add: length_placeholder)
      then have "8 \<le> length (c # hd ps)" 
        using length_placeholder by (metis length_take min.cobounded1 min.commute)
      moreover obtain rest where "c # cs = (c # hd ps) @ rest"
        using a ps(1) by (cases ps; cases "tl ps") auto
      ultimately have "take 8 (c # cs) = take 8 (c # hd ps)" by simp
      with t False show False by simp
    qed
    moreover have "set (tl ps) \<subseteq> set ps" using ps(1) by (cases ps) auto
    ultimately have c: "\<forall>p \<in> set ?qs. \<not> occurs placeholder p" using ps(2) by auto
    from a b c show ?thesis by blast
  qed
qed

lemma replace_from_no_occurrence:
  "\<not> occurs placeholder s \<Longrightarrow> replace_from r pre s = s"
  by (induction s arbitrary: pre) (simp_all add: length_placeholder)

lemma placeholder_snoc: "butlast placeholder @ [0x7D] = placeholder"
  by (simp add: placeholder_def js_def)

lemma take_placeholder_prefix:
  assumes "take 8 (c # a @ placeholder @ b) = placeholder"
  shows "take 8 (c # a @ butlast placeholder) = placeholder"
proof -
  have len: "8 \<le> length (c # a @ butlast placeholder)" by (simp add: length_placeholder)
  have "c # a @ placeholder @ b = (c # a @ butlast placeholder) @ ([0x7D] @ b)"
    using placeholder_snoc by (metis append_Cons append_assoc)
  then have "take 8 (c # a @ placeholder @ b) = take 8 (c # a @ butlast placeholder)"
    using len by (simp only: take_append) simp
  with assms show ?thesis by simp
qed

lemma replace_from_prefix:
  assumes "\<not> occurs placeholder (a @ butlast placeholder)"
  shows "replace_from r pre (a @ placeholder @ b) = a @ replace_from r (pre @ a) (placeholder @ b)"
  using assms
proof (induction a arbitrary: pre)
  case Nil
  then show ?case by simp
next
  case (Cons c a)
  from Cons.prems have no: "take 8 (c # a @ butlast placeholder) \<noteq> placeholder"
    and rest: "\<not> occurs placeholder (a @ butlast placeholder)"
    by (simp_all add: length_placeholder)
  from no have "take 8 (c # a @ placeholder @ b) \<noteq> placeholder"
    using take_placeholder_prefix by blast
  then have "replace_from r pre ((c # a) @ placeholder @ b) =
      c # replace_from r (pre @ [c]) (a @ placeholder @ b)"
    by simp
  with Cons.IH [OF rest, of "pre @ [c]"] show ?case by simp
qed

lemma replace_from_at_placeholder:
  "replace_from r pre (placeholder @ b) =
     get_substitution placeholder pre b r @ replace_from r (pre @ placeholder) b"
proof -
  obtain c cs where cs: "placeholder @ b = c # cs"
    by (cases "placeholder @ b") (simp_all add: placeholder_def js_def)
  have t: "take 8 (placeholder @ b) = placeholder" and d: "drop 8 (placeholder @ b) = b"
    by (simp_all add: length_placeholder)
  have "replace_from r pre (c # cs) =
      get_substitution placeholder pre (drop 8 (c # cs)) r
        @ replace_from r (pre @ placeholder) (drop 8 (c # cs))"
    using t cs by (simp only: replace_from.simps if_True simp_thms)
  then show ?thesis using cs d by (simp only:)
qed

lemma replace_nome_single:
  assumes "\<not> occurs placeholder (a @ butlast placeholder)" and "\<not> occurs placeholder b"
    and "0x24 \<notin> set t"
  shows "replace_nome (a @ placeholder @ b) t = a @ t @ b"
  using assms
  by (simp add: replace_nome_def replace_from_prefix replace_from_at_placeholder
        get_substitution_no_dollar replace_from_no_occurrence)

lemma occurs_across_separator:
  assumes "occurs tok (u @ s # v)" and "s \<notin> set tok"
  shows "occurs tok u \<or> occurs tok v"
  using assms
proof (induction u)
  case Nil
  show ?case
  proof (cases "take (length tok) (s # v) = tok")
    case True
    show ?thesis
    proof (cases tok)
      case Nil
      then show ?thesis by simp
    next
      case (Cons x xs)
      with True have "s = x" by simp
      with Cons Nil.prems(2) show ?thesis by simp
    qed
  next
    case False
    with Nil.prems(1) show ?thesis by simp
  qed
next
  case (Cons c u)
  show ?case
  proof (cases "take (length tok) (c # u @ s # v) = tok")
    case True
    show ?thesis
    proof (cases "length tok \<le> length (c # u)")
      case le: True
      then have "take (length tok) (c # u @ s # v) = take (length tok) (c # u)"
        by (metis append_Cons take_all_iff take_append take_eq_Nil2 append_Nil2 diff_is_0_eq)
      with True show ?thesis by simp
    next
      case False
      then have lt: "length (c # u) < length tok" by simp
      have "(c # u @ s # v) ! length (c # u) = s"
        by (metis append_Cons nth_append_length)
      moreover have "take (length tok) (c # u @ s # v) ! length (c # u) = (c # u @ s # v) ! length (c # u)"
        using lt by (rule nth_take)
      ultimately have "tok ! length (c # u) = s" using True by simp
      with lt have "s \<in> set tok" by (metis nth_mem)
      with Cons.prems(2) show ?thesis by simp
    qed
  next
    case False
    with Cons.prems(1) have "occurs tok (u @ s # v)" by simp
    with Cons.IH Cons.prems(2) show ?thesis by auto
  qed
qed

lemma no_occurrence_between:
  assumes "\<not> occurs tok (a @ [x])" and "\<not> occurs tok (y # b)" and "\<not> occurs tok t"
    and "x \<notin> set tok" and "y \<notin> set tok"
  shows "\<not> occurs tok ((a @ [x]) @ t @ (y # b))"
proof
  assume "occurs tok ((a @ [x]) @ t @ (y # b))"
  then have "occurs tok (a @ x # (t @ y # b))" by simp
  then have "occurs tok a \<or> occurs tok (t @ y # b)"
    using assms(4) by (rule occurs_across_separator)
  then show False
  proof
    assume "occurs tok a"
    then have "occurs tok (a @ [x])"
      unfolding occurs_iff by (metis append_assoc)
    with assms(1) show False by simp
  next
    assume "occurs tok (t @ y # b)"
    then have "occurs tok t \<or> occurs tok b" using assms(5) by (rule occurs_across_separator)
    with assms(3) have "occurs tok b" by simp
    then have "occurs tok (y # b)" by simp
    with assms(2) show False by simp
  qed
qed

lemma no_occurrence_around:
  assumes "\<not> occurs tok a" and "\<not> occurs tok b" and "\<not> occurs tok t"
    and "a \<noteq> []" and "last a \<notin> set tok" and "b \<noteq> []" and "hd b \<notin> set tok"
  shows "\<not> occurs tok (a @ t @ b)"
proof -
  from assms(4) have a: "a = butlast a @ [last a]" by simp
  from assms(6) have b: "b = hd b # tl b" by simp
  have "\<not> occurs tok ((butlast a @ [last a]) @ t @ (hd b # tl b))"
    using assms(1,2,3,5,7) a b by (intro no_occurrence_between) simp_all
  with a b show ?thesis by simp
qed

lemma occurs_prefix: "occurs tok a \<Longrightarrow> occurs tok (a @ b)"
  unfolding occurs_iff by (metis append_assoc)

section \<open>Facts about the templates of \<open>mensagem.js\<close>\<close>

lemma html_head_clean: "\<not> occurs placeholder (html_head @ butlast placeholder)"
  by (simp add: html_head_def placeholder_def js_def)

lemma html_tail_clean: "\<not> occurs placeholder html_tail"
  by (simp add: html_tail_def placeholder_def js_def)

lemma js_eq_Nil: "(js s = []) = (s = [])"
  by (simp add: js_def)

lemma html_head_last: "html_head \<noteq> [] \<and> last html_head = 0x3E"
proof -
  have "last html_head = last (js ''>'')" and "html_head \<noteq> []"
    unfolding html_head_def
    by (simp_all only: last_append append_is_Nil_conv js_eq_Nil list.distinct simp_thms if_False)
  then show ?thesis by (simp add: js_def)
qed

lemma html_tail_first: "html_tail \<noteq> [] \<and> hd html_tail = 0x3C"
  unfolding html_tail_def by (simp add: js_def)

lemma texto_parts:
  "texto mensagem = (js ''Ol'' @ [0xE1] @ js '', '') @ placeholder
     @ (js ''! '' @ [0xA] @ [0xA] @
   js ''Seja bem-vindo(a) ao nosso sistema. Estamos felizes em t'' @ [0xEA] @
   js ''-lo(a) conosco.'' @ [0xA] @ [0xA] @ js ''Esperamos que tenha uma excelente experi'' @
   [0xEA] @ js ''ncia!'' @ [0xA] @ [0xA] @ js ''Atenciosamente,'' @ [0xA] @
   js ''Equipe do Sistema'')"
  by (simp add: mensagem_def placeholder_def)

lemma html_parts: "html mensagem = html_head @ placeholder @ html_tail"
  by (simp add: mensagem_def placeholder_def)

lemma placeholder_set: "0x3E \<notin> set placeholder" "0x3C \<notin> set placeholder"
    "0x20 \<notin> set placeholder" "0x21 \<notin> set placeholder"
  by (simp_all add: placeholder_def js_def)

lemma texto_rendered_clean:
  assumes "0x24 \<notin> set t" and "\<not> occurs placeholder t"
  shows "\<not> occurs placeholder (texto (personalizar mensagem t))"
proof -
  define a where "a = js ''Ol'' @ [0xE1] @ js '', ''"
  define b where "b = js ''! '' @ [0xA] @ [0xA] @
   js ''Seja bem-vindo(a) ao nosso sistema. Estamos felizes em t'' @ [0xEA] @
   js ''-lo(a) conosco.'' @ [0xA] @ [0xA] @ js ''Esperamos que tenha uma excelente experi'' @
   [0xEA] @ js ''ncia!'' @ [0xA] @ [0xA] @ js ''Atenciosamente,'' @ [0xA] @
   js ''Equipe do Sistema''"
  have parts: "texto mensagem = a @ placeholder @ b"
    unfolding a_def b_def by (rule texto_parts)
  have a1: "\<not> occurs placeholder (a @ butlast placeholder)"
    by (simp add: a_def placeholder_def js_def)
  have b1: "\<not> occurs placeholder b"
    by (simp add: b_def placeholder_def js_def)
  have a2: "\<not> occurs placeholder a" using a1 occurs_prefix by blast
  have ends: "a \<noteq> []" "last a = 0x20" "b \<noteq> []" "hd b = 0x21"
    by (simp_all add: a_def b_def js_def)
  have "texto (personalizar mensagem t) = a @ t @ b"
    using replace_nome_single [OF a1 b1 assms(1)] parts by (simp add: personalizar_def)
  moreover have "\<not> occurs placeholder (a @ t @ b)"
    using a2 b1 assms(2) ends(1) _ ends(3)
  proof (rule no_occurrence_around)
    show "last a \<notin> set placeholder" using ends(2) placeholder_set by simp
    show "hd b \<notin> set placeholder" using ends(4) placeholder_set by simp
  qed
  ultimately show ?thesis by simp
qed

lemma html_rendered_clean:
  assumes "0x24 \<notin> set t" and "\<not> occurs placeholder t"
  shows "\<not> occurs placeholder (html (personalizar mensagem t))"
proof -
  have h2: "\<not> occurs placeholder html_head" using html_head_clean occurs_prefix by blast
  have "html (personalizar mensagem t) = html_head @ t @ html_tail"
    using replace_nome_single [OF html_head_clean html_tail_clean assms(1)] html_parts
    by (simp add: personalizar_def)
  moreover have "\<not> occurs placeholder (html_head @ t @ html_tail)"
    using h2 html_tail_clean assms(2)
  proof (rule no_occurrence_around)
    show "html_head \<noteq> []" using html_head_last by simp
    show "html_tail \<noteq> []" using html_tail_first by simp
    show "last html_head \<notin> set placeholder" using html_head_last placeholder_set by simp
    show "hd html_tail \<notin> set placeholder" using html_tail_first placeholder_set by simp
  qed
  ultimately show ?thesis by simp
qed

lemma assunto_rendered_clean: "\<not> occurs placeholder (assunto (personalizar mensagem t))"
  by (simp add: personalizar_def mensagem_def placeholder_def js_def)

section \<open>The claims\<close>

subsection \<open>C1: missing fields\<close>

text \<open>
  C1, as stated, fails. A name that is not empty but becomes empty once trimmed passes
  the presence test \<open>!nome\<close>: with the name \<open>"  "\<close> and the address \<open>a@b.co\<close> the
  answer is the name-too-short response, not the missing-fields one.
\<close>

theorem C1_counterexample:
  "trim (js ''  '') = [] \<and>
   send_welcome mensagem from_env stub_throws
       \<lparr>nome = JStr (js ''  ''), email = JStr (js ''a@b.co'')\<rparr>
     = \<lparr>answer = name_too_short, events = []\<rparr> \<and>
   name_too_short \<noteq> missing_field"
proof -
  have "validacoes \<lparr>nome = JStr (js ''  ''), email = JStr (js ''a@b.co'')\<rparr> = Return name_too_short"
    by (simp add: validacoes_def emailRegex_def js_def is_white_space_def trim_def)
  then show ?thesis
    using responses_distinct by (simp add: send_welcome_Return trim_def js_def is_white_space_def)
qed

text \<open>
  C1, amended: for every request in which the name or the email is absent or is the
  empty string, the response is the 400 missing-fields response, and the handler does
  nothing else: no send call, no log line.
\<close>

theorem C1_missing_field:
  assumes "nome b = JUndefined \<or> nome b = JStr [] \<or> email b = JUndefined \<or> email b = JStr []"
  shows "send_welcome m from_email send b = \<lparr>answer = missing_field, events = []\<rparr>"
proof -
  from assms have "\<not> truthy (nome b) \<or> \<not> truthy (email b)" by auto
  then have "validacoes b = Return missing_field" by (simp add: validacoes_def)
  then show ?thesis by (rule send_welcome_Return)
qed

theorem C1_missing_field_witness:
  "nome \<lparr>nome = JStr [], email = JStr (js ''a@b.co'')\<rparr> = JStr [] \<and>
   send_welcome mensagem from_env stub_abc123 \<lparr>nome = JStr [], email = JStr (js ''a@b.co'')\<rparr>
     = \<lparr>answer = missing_field, events = []\<rparr> \<and>
   email \<lparr>nome = JStr (js ''Ana''), email = JUndefined\<rparr> = JUndefined \<and>
   send_welcome mensagem from_env stub_abc123 \<lparr>nome = JStr (js ''Ana''), email = JUndefined\<rparr>
     = \<lparr>answer = missing_field, events = []\<rparr> \<and>
   status missing_field = 400"
  using C1_missing_field [of "\<lparr>nome = JStr [], email = JStr (js ''a@b.co'')\<rparr>"
      mensagem from_env stub_abc123]
    C1_missing_field [of "\<lparr>nome = JStr (js ''Ana''), email = JUndefined\<rparr>"
      mensagem from_env stub_abc123]
    status_400
  by simp

subsection \<open>C2: the order of the rules\<close>

text \<open>
  C2, as stated, fails. With the name \<open>"  "\<close> and the email \<open>foo@bar\<close> all three
  rules of the specification are broken, the first of them being the missing field
  (the name is empty once trimmed); the handler's presence test does not trim, lets
  the name through, and the answer carries the reason of the second rule.
\<close>

theorem C2_counterexample:
  "spec_violated \<lparr>nome = JStr (js ''  ''), email = JStr (js ''foo@bar'')\<rparr> MissingField \<and>
   spec_violated \<lparr>nome = JStr (js ''  ''), email = JStr (js ''foo@bar'')\<rparr> InvalidEmailFormat \<and>
   spec_violated \<lparr>nome = JStr (js ''  ''), email = JStr (js ''foo@bar'')\<rparr> NameTooShort \<and>
   send_welcome mensagem from_env stub_abc123
       \<lparr>nome = JStr (js ''  ''), email = JStr (js ''foo@bar'')\<rparr>
     = \<lparr>answer = reply InvalidEmailFormat, events = []\<rparr> \<and>
   reply InvalidEmailFormat \<noteq> reply MissingField"
proof -
  have t: "trim (js ''  '') = []"
    by (simp add: trim_def js_def is_white_space_def)
  have re: "\<not> regex_test emailRegex (js ''foo@bar'')"
    by (simp add: emailRegex_def js_def is_white_space_def)
  then have sh: "\<not> email_shape (js ''foo@bar'')" by (simp add: emailRegex_shape)
  have ne: "js ''  '' \<noteq> []" "js ''foo@bar'' \<noteq> []" by (simp_all add: js_def)
  have "validacoes \<lparr>nome = JStr (js ''  ''), email = JStr (js ''foo@bar'')\<rparr>
      = Return invalid_email_format"
    using re ne by (simp add: validacoes_def)
  then show ?thesis
    using t sh responses_distinct by (simp add: send_welcome_Return)
qed

text \<open>
  C2, amended: with the first rule taken as the handler tests it (a field is missing
  when it is absent, empty or otherwise falsy, without trimming), the rules are tested
  in the order missing field, email format, name length, and the first one that fails
  gives the only response. For every body that breaks at least one rule, provided the
  email is missing or can be converted to a string, the answer is the response of the
  first broken rule in that order, whatever other rules are broken too, and nothing
  is sent or logged.
\<close>

theorem C2_first_failure_wins:
  assumes "violated b MissingField \<or> to_string (email b) \<noteq> None" and "violations b \<noteq> []"
  shows "send_welcome m from_email send b = \<lparr>answer = reply (hd (violations b)), events = []\<rparr>"
proof (cases "violated b MissingField")
  case True
  then have "validacoes b = Return missing_field" by (simp add: validacoes_def)
  moreover from True have "hd (violations b) = MissingField" by (simp add: violations_def)
  ultimately show ?thesis by (simp add: send_welcome_Return)
next
  case miss: False
  with assms(1) obtain e where e: "to_string (email b) = Some e" by blast
  show ?thesis
  proof (cases "violated b InvalidEmailFormat")
    case True
    with miss e have "validacoes b = Return invalid_email_format" by (simp add: validacoes_def)
    moreover from miss True have "hd (violations b) = InvalidEmailFormat"
      by (simp add: violations_def)
    ultimately show ?thesis by (simp add: send_welcome_Return)
  next
    case fmt: False
    with miss assms(2) have short: "violated b NameTooShort"
      by (auto simp add: violations_def split: if_splits)
    with miss fmt e have "validacoes b = Return name_too_short"
      by (auto simp: validacoes_def split: option.splits)
    moreover from miss fmt short have "hd (violations b) = NameTooShort"
      by (simp add: violations_def)
    ultimately show ?thesis by (simp add: send_welcome_Return)
  qed
qed

theorem C2_first_failure_wins_witness:
  "to_string (email \<lparr>nome = JStr [], email = JStr (js ''foo@bar'')\<rparr>) \<noteq> None \<and>
   violations \<lparr>nome = JStr [], email = JStr (js ''foo@bar'')\<rparr>
     = [MissingField, InvalidEmailFormat, NameTooShort] \<and>
   send_welcome mensagem from_env stub_abc123 \<lparr>nome = JStr [], email = JStr (js ''foo@bar'')\<rparr>
     = \<lparr>answer = missing_field, events = []\<rparr> \<and>
   violations \<lparr>nome = JStr (js ''A''), email = JStr (js ''foo@bar'')\<rparr>
     = [InvalidEmailFormat, NameTooShort] \<and>
   send_welcome mensagem from_env stub_abc123 \<lparr>nome = JStr (js ''A''), email = JStr (js ''foo@bar'')\<rparr>
     = \<lparr>answer = invalid_email_format, events = []\<rparr>"
proof -
  have v1: "violations \<lparr>nome = JStr [], email = JStr (js ''foo@bar'')\<rparr>
     = [MissingField, InvalidEmailFormat, NameTooShort]"
    by (simp add: violations_def emailRegex_def js_def is_white_space_def trim_def)
  have v2: "violations \<lparr>nome = JStr (js ''A''), email = JStr (js ''foo@bar'')\<rparr>
     = [InvalidEmailFormat, NameTooShort]"
    by (simp add: violations_def emailRegex_def js_def is_white_space_def trim_def)
  show ?thesis
    using C2_first_failure_wins [of "\<lparr>nome = JStr [], email = JStr (js ''foo@bar'')\<rparr>"
        mensagem from_env stub_abc123]
      C2_first_failure_wins [of "\<lparr>nome = JStr (js ''A''), email = JStr (js ''foo@bar'')\<rparr>"
        mensagem from_env stub_abc123]
    by (simp add: v1 v2)
qed

subsection \<open>C3: the email format\<close>

text \<open>
  C3: for every body that passes the presence test, with \<open>e\<close> the text the email
  converts to, the answer is the 400 invalid-format response exactly when \<open>e\<close> does not
  have the shape local part, \<open>@\<close>, domain, dot, suffix. In particular \<open>foo@bar\<close> is
  rejected and \<open>a@b.co\<close> is accepted.
\<close>

theorem C3_email_format:
  assumes "truthy (nome b)" and "truthy (email b)" and "to_string (email b) = Some e"
  shows "(answer (send_welcome m from_email send b) = invalid_email_format) = (\<not> email_shape e)"
proof (cases "regex_test emailRegex e")
  case False
  with assms have "validacoes b = Return invalid_email_format" by (simp add: validacoes_def)
  then have "answer (send_welcome m from_email send b) = invalid_email_format"
    by (simp add: send_welcome_Return)
  with False show ?thesis by (simp add: emailRegex_shape)
next
  case True
  have "answer (send_welcome m from_email send b) \<noteq> invalid_email_format"
  proof (cases "validacoes b")
    case (Normal u)
    then have "status (answer (send_welcome m from_email send b)) \<noteq> 400"
      using answer_not_400_after_validation [of b] by simp
    then show ?thesis using status_400 by auto
  next
    case (Return r)
    with assms True have "r = name_too_short"
      by (auto simp: validacoes_def split: option.splits if_splits)
    with Return show ?thesis using responses_distinct by (simp add: send_welcome_Return)
  next
    case (Throw x)
    then show ?thesis using internal_error_distinct by (simp add: send_welcome_Throw)
  qed
  with True show ?thesis by (simp add: emailRegex_shape)
qed

theorem C3_email_format_witness:
  "truthy (JStr (js ''Ana'')) \<and> truthy (JStr (js ''foo@bar'')) \<and> truthy (JStr (js ''a@b.co'')) \<and>
   \<not> email_shape (js ''foo@bar'') \<and> email_shape (js ''a@b.co'') \<and>
   answer (send_welcome mensagem from_env stub_abc123
       \<lparr>nome = JStr (js ''Ana''), email = JStr (js ''foo@bar'')\<rparr>) = invalid_email_format \<and>
   answer (send_welcome mensagem from_env stub_abc123
       \<lparr>nome = JStr (js ''Ana''), email = JStr (js ''a@b.co'')\<rparr>) \<noteq> invalid_email_format"
proof -
  have r1: "validacoes \<lparr>nome = JStr (js ''Ana''), email = JStr (js ''foo@bar'')\<rparr>
      = Return invalid_email_format"
    by (simp add: validacoes_def emailRegex_def js_def is_white_space_def)
  have r2: "validacoes \<lparr>nome = JStr (js ''Ana''), email = JStr (js ''a@b.co'')\<rparr> = Normal ()"
    by (simp add: validacoes_def emailRegex_def js_def is_white_space_def trim_def)
  have a1: "answer (send_welcome mensagem from_env stub_abc123
       \<lparr>nome = JStr (js ''Ana''), email = JStr (js ''foo@bar'')\<rparr>) = invalid_email_format"
    using r1 by (simp add: send_welcome_Return)
  have a2: "answer (send_welcome mensagem from_env stub_abc123
       \<lparr>nome = JStr (js ''Ana''), email = JStr (js ''a@b.co'')\<rparr>) \<noteq> invalid_email_format"
    using answer_not_400_after_validation [OF r2, of mensagem from_env stub_abc123]
      status_400 by auto
  have t: "truthy (JStr (js ''Ana''))" "truthy (JStr (js ''foo@bar''))" "truthy (JStr (js ''a@b.co''))"
    by (simp_all add: js_def)
  show ?thesis
    using C3_email_format [of "\<lparr>nome = JStr (js ''Ana''), email = JStr (js ''foo@bar'')\<rparr>"
        "js ''foo@bar''" mensagem from_env stub_abc123]
      C3_email_format [of "\<lparr>nome = JStr (js ''Ana''), email = JStr (js ''a@b.co'')\<rparr>"
        "js ''a@b.co''" mensagem from_env stub_abc123]
      a1 a2 t
    by simp
qed

subsection \<open>C4: the length of the name\<close>

text \<open>
  C4: for every body whose email passes the presence and format tests and whose name is
  a non-empty string, the answer is the 400 name-too-short response exactly when the
  trimmed name has length less than 2, the length being what \<open>String.prototype.length\<close>
  counts (UTF-16 code units). In particular \<open>" a "\<close> is rejected and \<open>"Al"\<close> is not.
\<close>

theorem C4_name_too_short:
  assumes "truthy (email b)" and "to_string (email b) = Some e" and "regex_test emailRegex e"
    and "nome b = JStr n" and "n \<noteq> []"
  shows "(answer (send_welcome m from_email send b) = name_too_short) = (length (trim n) < 2)"
proof (cases "length (trim n) < 2")
  case True
  with assms have "validacoes b = Return name_too_short" by (simp add: validacoes_def)
  with True show ?thesis by (simp add: send_welcome_Return)
next
  case False
  with assms have v: "validacoes b = Normal ()" by (simp add: validacoes_def)
  have "answer (send_welcome m from_email send b) \<noteq> name_too_short"
    using answer_not_400_after_validation [OF v, of m from_email send] status_400 by auto
  with False show ?thesis by simp
qed

theorem C4_name_too_short_witness:
  "regex_test emailRegex (js ''ana@example.com'') \<and>
   trim (js '' a '') = js ''a'' \<and> length (js ''a'') < 2 \<and>
   answer (send_welcome mensagem from_env stub_abc123
       \<lparr>nome = JStr (js '' a ''), email = JStr (js ''ana@example.com'')\<rparr>) = name_too_short \<and>
   trim (js ''Al'') = js ''Al'' \<and> \<not> length (js ''Al'') < 2 \<and>
   answer (send_welcome mensagem from_env stub_abc123
       \<lparr>nome = JStr (js ''Al''), email = JStr (js ''ana@example.com'')\<rparr>) \<noteq> name_too_short"
proof -
  have re: "regex_test emailRegex (js ''ana@example.com'')"
    by (simp add: emailRegex_def js_def is_white_space_def)
  have t1: "trim (js '' a '') = js ''a''" and t2: "trim (js ''Al'') = js ''Al''"
    by (simp_all add: trim_def js_def is_white_space_def)
  have ne: "js '' a '' \<noteq> []" "js ''Al'' \<noteq> []" "js ''ana@example.com'' \<noteq> []"
    by (simp_all add: js_def)
  have l: "length (js ''a'') < 2" "\<not> length (js ''Al'') < 2" by (simp_all add: js_def)
  show ?thesis
    using C4_name_too_short [of "\<lparr>nome = JStr (js '' a ''), email = JStr (js ''ana@example.com'')\<rparr>"
        "js ''ana@example.com''" "js '' a ''" mensagem from_env stub_abc123]
      C4_name_too_short [of "\<lparr>nome = JStr (js ''Al''), email = JStr (js ''ana@example.com'')\<rparr>"
        "js ''ana@example.com''" "js ''Al''" mensagem from_env stub_abc123]
      re t1 t2 ne l
    by simp
qed

subsection \<open>C5: what the substitution replaces\<close>

text \<open>
  C5, as stated, fails. The subject is passed on as it is, so a placeholder in the
  subject stays. The token the handler replaces is \<open>{{nome}}\<close>, so the text
  \<open>Hi {{name}}, {{name}}!\<close> is left as it is. And the replacement text is read as a
  replacement pattern, so with the name \<open>$&\<close> every placeholder of the text is
  replaced by itself, not by the name.
\<close>

theorem C5_counterexample:
  "assunto (personalizar
      \<lparr>assunto = js ''Hi {{nome}}, {{nome}}!'', texto = js ''Hi {{nome}}, {{nome}}!'',
       html = js ''<p>{{nome}}</p>''\<rparr> (trim (js ''Sam'')))
     = js ''Hi {{nome}}, {{nome}}!'' \<and>
   occurs placeholder (js ''Hi {{nome}}, {{nome}}!'') \<and>
   texto (personalizar
      \<lparr>assunto = js ''Welcome'', texto = js ''Hi {{name}}, {{name}}!'',
       html = js ''<p>{{name}}</p>''\<rparr> (trim (js ''Sam'')))
     = js ''Hi {{name}}, {{name}}!'' \<and>
   texto (personalizar
      \<lparr>assunto = js ''Hi {{nome}}, {{nome}}!'', texto = js ''Hi {{nome}}, {{nome}}!'',
       html = js ''<p>{{nome}}</p>''\<rparr> (trim (js ''$&'')))
     = js ''Hi {{nome}}, {{nome}}!''"
  by (simp add: personalizar_def replace_nome_def placeholder_def js_def trim_def is_white_space_def)

text \<open>
  C5, amended: for every template and every name whose trimmed form contains no dollar
  sign, rendering leaves the subject as it is and replaces every occurrence of
  \<open>{{nome}}\<close> in the text body and in the HTML body by the trimmed name. In
  particular the text \<open>Hi {{nome}}, {{nome}}!\<close> with the name \<open>Sam\<close> gives
  \<open>Hi Sam, Sam!\<close>.
\<close>

theorem C5_every_occurrence_replaced:
  assumes "0x24 \<notin> set (trim n)"
  shows "assunto (personalizar m (trim n)) = assunto m \<and>
         every_placeholder_replaced (texto m) (trim n) (texto (personalizar m (trim n))) \<and>
         every_placeholder_replaced (html m) (trim n) (html (personalizar m (trim n)))"
  using replace_from_pieces [OF assms, of "texto m" "[]"] replace_from_pieces [OF assms, of "html m" "[]"]
  by (simp add: personalizar_def replace_nome_def every_placeholder_replaced_def)

theorem C5_every_occurrence_replaced_witness:
  "0x24 \<notin> set (trim (js '' Sam '')) \<and>
   trim (js '' Sam '') = js ''Sam'' \<and>
   every_placeholder_replaced (js ''Hi {{nome}}, {{nome}}!'') (js ''Sam'')
     (texto (personalizar
        \<lparr>assunto = js ''Welcome'', texto = js ''Hi {{nome}}, {{nome}}!'', html = js ''<p>{{nome}}</p>''\<rparr>
        (trim (js '' Sam '')))) \<and>
   texto (personalizar
        \<lparr>assunto = js ''Welcome'', texto = js ''Hi {{nome}}, {{nome}}!'', html = js ''<p>{{nome}}</p>''\<rparr>
        (trim (js '' Sam ''))) = js ''Hi Sam, Sam!''"
proof -
  have t: "trim (js '' Sam '') = js ''Sam''" by (simp add: trim_def js_def is_white_space_def)
  have d: "0x24 \<notin> set (trim (js '' Sam ''))" by (simp add: t) (simp add: js_def)
  have r: "texto (personalizar
        \<lparr>assunto = js ''Welcome'', texto = js ''Hi {{nome}}, {{nome}}!'', html = js ''<p>{{nome}}</p>''\<rparr>
        (trim (js '' Sam ''))) = js ''Hi Sam, Sam!''"
    by (simp add: t) (simp add: personalizar_def replace_nome_def placeholder_def js_def)
  show ?thesis
    using C5_every_occurrence_replaced [OF d,
       of "\<lparr>assunto = js ''Welcome'', texto = js ''Hi {{nome}}, {{nome}}!'', html = js ''<p>{{nome}}</p>''\<rparr>"]
      t d r
    by simp
qed

subsection \<open>C6: no placeholder left in the message sent\<close>

text \<open>
  C6, as stated, fails. The names \<open>{{nome}}\<close> and \<open>$&\<close> both pass the three checks, and
  with either of them the text rendered from the template of \<open>mensagem.js\<close> still
  contains the placeholder.
\<close>

theorem C6_counterexample:
  "validacoes \<lparr>nome = JStr (js ''{{nome}}''), email = JStr (js ''a@b.co'')\<rparr> = Normal () \<and>
   occurs placeholder (texto (personalizar mensagem (trim (js ''{{nome}}'')))) \<and>
   validacoes \<lparr>nome = JStr (js ''$&''), email = JStr (js ''a@b.co'')\<rparr> = Normal () \<and>
   occurs placeholder (texto (personalizar mensagem (trim (js ''$&''))))"
proof -
  have t: "trim (js ''{{nome}}'') = js ''{{nome}}''" "trim (js ''$&'') = js ''$&''"
    by (simp_all add: trim_def js_def is_white_space_def)
  have v: "validacoes \<lparr>nome = JStr (js ''{{nome}}''), email = JStr (js ''a@b.co'')\<rparr> = Normal ()"
    "validacoes \<lparr>nome = JStr (js ''$&''), email = JStr (js ''a@b.co'')\<rparr> = Normal ()"
    by (simp_all add: validacoes_def emailRegex_def t) (simp_all add: js_def is_white_space_def)
  have o: "occurs placeholder (texto (personalizar mensagem (js ''{{nome}}'')))"
    "occurs placeholder (texto (personalizar mensagem (js ''$&'')))"
    by (simp_all add: personalizar_def replace_nome_def mensagem_def placeholder_def js_def)
  show ?thesis using v o by (simp add: t)
qed

text \<open>
  C6, amended: for every validated request with a string name and a string email, if
  the trimmed name contains neither a dollar sign nor the text \<open>{{nome}}\<close>, then the
  message handed to the send capability, rendered from the template of \<open>mensagem.js\<close>,
  contains the placeholder in none of its parts: subject, text, HTML.
\<close>

theorem C6_no_placeholder_left:
  assumes "validacoes b = Normal ()" and "nome b = JStr n" and "email b = JStr e"
    and "0x24 \<notin> set (trim n)" and "\<not> occurs placeholder (trim n)"
  shows "events (send_welcome mensagem from_email send b) ! 1 =
           SendCall (build_message from_email (trim e) (personalizar mensagem (trim n))) \<and>
         \<not> occurs placeholder (msg_subject (build_message from_email (trim e) (personalizar mensagem (trim n)))) \<and>
         \<not> occurs placeholder (msg_text (build_message from_email (trim e) (personalizar mensagem (trim n)))) \<and>
         \<not> occurs placeholder (msg_html (build_message from_email (trim e) (personalizar mensagem (trim n))))"
  using sent_message [OF assms(1,2,3)] assunto_rendered_clean
    texto_rendered_clean [OF assms(4,5)] html_rendered_clean [OF assms(4,5)]
  by (simp add: build_message_def)

theorem C6_no_placeholder_left_witness:
  "validacoes \<lparr>nome = JStr (js '' Ana ''), email = JStr (js ''ana@example.com'')\<rparr> = Normal () \<and>
   trim (js '' Ana '') = js ''Ana'' \<and>
   0x24 \<notin> set (js ''Ana'') \<and> \<not> occurs placeholder (js ''Ana'') \<and>
   events (send_welcome mensagem from_env stub_abc123
       \<lparr>nome = JStr (js '' Ana ''), email = JStr (js ''ana@example.com'')\<rparr>) ! 1 =
     SendCall (build_message from_env (js ''ana@example.com'') (personalizar mensagem (js ''Ana''))) \<and>
   \<not> occurs placeholder
       (msg_text (build_message from_env (js ''ana@example.com'') (personalizar mensagem (js ''Ana'')))) \<and>
   \<not> occurs placeholder
       (msg_html (build_message from_env (js ''ana@example.com'') (personalizar mensagem (js ''Ana''))))"
proof -
  have v: "validacoes \<lparr>nome = JStr (js '' Ana ''), email = JStr (js ''ana@example.com'')\<rparr> = Normal ()"
    by (simp add: validacoes_def emailRegex_def js_def is_white_space_def trim_def)
  have t: "trim (js '' Ana '') = js ''Ana''" "trim (js ''ana@example.com'') = js ''ana@example.com''"
    by (simp_all add: trim_def js_def is_white_space_def)
  have d: "0x24 \<notin> set (js ''Ana'')" and o: "\<not> occurs placeholder (js ''Ana'')"
    by (simp_all add: placeholder_def js_def)
  show ?thesis
    using C6_no_placeholder_left [OF v, of "js '' Ana ''" "js ''ana@example.com''" from_env stub_abc123]
      v t d o
    by simp
qed

subsection \<open>C7: nothing is rendered or sent after a validation failure\<close>

text \<open>
  C7: for every request that one of the three checks rejects, the outcome is that
  400 response and an empty list of events, whatever the template, the sender
  address and the send capability are: the send capability is not called and the
  template is not used.
\<close>

theorem C7_no_send_on_invalid:
  assumes "validacoes b = Return r"
  shows "send_welcome m from_email send b = \<lparr>answer = r, events = []\<rparr> \<and>
         status r = 400 \<and>
         (r = missing_field \<or> r = invalid_email_format \<or> r = name_too_short)"
proof -
  from assms have "r = missing_field \<or> r = invalid_email_format \<or> r = name_too_short"
    by (auto simp: validacoes_def split: if_splits option.splits)
  then show ?thesis using assms status_400 by (auto simp: send_welcome_Return)
qed

theorem C7_no_send_on_invalid_witness:
  "validacoes \<lparr>nome = JStr (js ''A''), email = JStr (js ''ana@example.com'')\<rparr>
     = Return name_too_short \<and>
   send_welcome mensagem from_env stub_abc123
       \<lparr>nome = JStr (js ''A''), email = JStr (js ''ana@example.com'')\<rparr>
     = \<lparr>answer = name_too_short, events = []\<rparr> \<and>
   status name_too_short = 400"
proof -
  have v: "validacoes \<lparr>nome = JStr (js ''A''), email = JStr (js ''ana@example.com'')\<rparr>
      = Return name_too_short"
    by (simp add: validacoes_def emailRegex_def js_def is_white_space_def trim_def)
  show ?thesis
    using v C7_no_send_on_invalid [OF v, of mensagem from_env stub_abc123] by simp
qed

subsection \<open>C8: a failed send\<close>

text \<open>
  C8: for every validated request with a string name and a string email, let the
  message be the one the handler hands to the send capability. If the send throws or
  answers with a truthy \<open>error\<close>, the response is the fixed 500 response (\<open>sucesso\<close>
  false and the message \<open>Erro interno do servidor ao enviar email\<close>), the same
  whatever the provider reported. The provider's details go to the console: when the
  send throws the value \<open>x\<close>, the last event is the console error carrying \<open>x\<close>; when
  it answers with the error \<open>err\<close>, the console gets \<open>err\<close> itself and then the Error
  built from \<open>err.message\<close>.
\<close>

theorem C8_send_failure:
  assumes "validacoes b = Normal ()" and "nome b = JStr n" and "email b = JStr e"
  shows
    "(send_failed (send (build_message from_email (trim e) (personalizar m (trim n)))) \<longrightarrow>
        answer (send_welcome m from_email send b) = internal_error) \<and>
     (send (build_message from_email (trim e) (personalizar m (trim n))) = Rejects x \<longrightarrow>
        events (send_welcome m from_email send b) =
          [ConsoleLog ([0xD83D, 0xDCE7] @ js '' Enviando boas-vindas para: '' @ n
                       @ js '' ('' @ e @ js '')''),
           SendCall (build_message from_email (trim e) (personalizar m (trim n))),
           ConsoleError ([0x274C] @ js '' Erro no servidor:'') (Exception (Rejected x))]) \<and>
     (send (build_message from_email (trim e) (personalizar m (trim n))) = Resolves v \<and>
      get_prop v (js ''error'') = Some err \<and> truthy err \<longrightarrow>
        events (send_welcome m from_email send b) =
          [ConsoleLog ([0xD83D, 0xDCE7] @ js '' Enviando boas-vindas para: '' @ n
                       @ js '' ('' @ e @ js '')''),
           SendCall (build_message from_email (trim e) (personalizar m (trim n))),
           ConsoleError ([0x274C] @ js '' Erro ao enviar email:'') (Value err),
           ConsoleError ([0x274C] @ js '' Erro no servidor:'')
             (Exception
               (case get_prop err (js ''message'') of
                  None \<Rightarrow> TypeError
                | Some em \<Rightarrow>
                    (case to_string em of
                       None \<Rightarrow> TypeError
                     | Some s \<Rightarrow> Error (js ''Falha no envio: '' @ s))))]) \<and>
     status internal_error = 500"
proof -
  let ?msg = "build_message from_email (trim e) (personalizar m (trim n))"
  let ?log = "ConsoleLog ([0xD83D, 0xDCE7] @ js '' Enviando boas-vindas para: '' @ n
                       @ js '' ('' @ e @ js '')'')"
  have tb: "try_block m from_email send b =
      (case after_send n (send ?msg) of (evs, c) \<Rightarrow> ([?log, SendCall ?msg] @ evs, c))"
    using assms by (simp add: try_block_def Let_def)
  have 1: "send_failed (send ?msg) \<longrightarrow> answer (send_welcome m from_email send b) = internal_error"
  proof
    assume "send_failed (send ?msg)"
    then obtain evs x where "after_send n (send ?msg) = (evs, Throw x)"
      using after_send_failed by blast
    with tb show "answer (send_welcome m from_email send b) = internal_error"
      by (simp add: send_welcome_def)
  qed
  have 2: "send ?msg = Rejects x \<longrightarrow>
      events (send_welcome m from_email send b) =
        [?log, SendCall ?msg,
         ConsoleError ([0x274C] @ js '' Erro no servidor:'') (Exception (Rejected x))]"
  proof
    assume "send ?msg = Rejects x"
    then have "after_send n (send ?msg) = ([], Throw (Rejected x))"
      by (simp add: after_send_def)
    with tb show "events (send_welcome m from_email send b) =
        [?log, SendCall ?msg,
         ConsoleError ([0x274C] @ js '' Erro no servidor:'') (Exception (Rejected x))]"
      by (simp add: send_welcome_def)
  qed
  have 3: "send ?msg = Resolves v \<and> get_prop v (js ''error'') = Some err \<and> truthy err \<longrightarrow>
      events (send_welcome m from_email send b) =
        [?log, SendCall ?msg,
         ConsoleError ([0x274C] @ js '' Erro ao enviar email:'') (Value err),
         ConsoleError ([0x274C] @ js '' Erro no servidor:'')
           (Exception
             (case get_prop err (js ''message'') of
                None \<Rightarrow> TypeError
              | Some em \<Rightarrow>
                  (case to_string em of
                     None \<Rightarrow> TypeError
                   | Some s \<Rightarrow> Error (js ''Falha no envio: '' @ s))))]"
  proof
    assume a: "send ?msg = Resolves v \<and> get_prop v (js ''error'') = Some err \<and> truthy err"
    then obtain dat where dat: "get_prop v (js ''data'') = Some dat"
      using get_prop_None [of v "js ''data''" "js ''error''"]
      by (cases "get_prop v (js ''data'')") auto
    have "after_send n (send ?msg) =
        ([ConsoleError ([0x274C] @ js '' Erro ao enviar email:'') (Value err)],
         Throw (case get_prop err (js ''message'') of
                  None \<Rightarrow> TypeError
                | Some em \<Rightarrow>
                    (case to_string em of
                       None \<Rightarrow> TypeError
                     | Some s \<Rightarrow> Error (js ''Falha no envio: '' @ s))))"
      using a dat by (simp add: after_send_def split: option.splits)
    with tb show "events (send_welcome m from_email send b) =
        [?log, SendCall ?msg,
         ConsoleError ([0x274C] @ js '' Erro ao enviar email:'') (Value err),
         ConsoleError ([0x274C] @ js '' Erro no servidor:'')
           (Exception
             (case get_prop err (js ''message'') of
                None \<Rightarrow> TypeError
              | Some em \<Rightarrow>
                  (case to_string em of
                     None \<Rightarrow> TypeError
                   | Some s \<Rightarrow> Error (js ''Falha no envio: '' @ s))))]"
      by (simp add: send_welcome_def)
  qed
  from 1 2 3 status_internal_error show ?thesis by blast
qed

theorem C8_send_failure_witness:
  "validacoes \<lparr>nome = JStr (js ''Ana''), email = JStr (js ''ana@example.com'')\<rparr> = Normal () \<and>
   send_failed (Rejects (JStr (js ''provider down''))) \<and>
   send_welcome mensagem from_env stub_throws
       \<lparr>nome = JStr (js ''Ana''), email = JStr (js ''ana@example.com'')\<rparr> =
     \<lparr>answer = internal_error,
      events =
        [ConsoleLog ([0xD83D, 0xDCE7] @ js '' Enviando boas-vindas para: Ana (ana@example.com)''),
         SendCall (build_message from_env (js ''ana@example.com'') (personalizar mensagem (js ''Ana''))),
         ConsoleError ([0x274C] @ js '' Erro no servidor:'')
           (Exception (Rejected (JStr (js ''provider down''))))]\<rparr> \<and>
   send_failed (Resolves (JObj [(js ''data'', JNull),
       (js ''error'', JObj [(js ''message'', JStr (js ''invalid api key''))])])) \<and>
   send_welcome mensagem from_env stub_error
       \<lparr>nome = JStr (js ''Ana''), email = JStr (js ''ana@example.com'')\<rparr> =
     \<lparr>answer = internal_error,
      events =
        [ConsoleLog ([0xD83D, 0xDCE7] @ js '' Enviando boas-vindas para: Ana (ana@example.com)''),
         SendCall (build_message from_env (js ''ana@example.com'') (personalizar mensagem (js ''Ana''))),
         ConsoleError ([0x274C] @ js '' Erro ao enviar email:'')
           (Value (JObj [(js ''message'', JStr (js ''invalid api key''))])),
         ConsoleError ([0x274C] @ js '' Erro no servidor:'')
           (Exception (Error (js ''Falha no envio: invalid api key'')))]\<rparr> \<and>
   internal_error =
     \<lparr>status = 500,
      body = [(''sucesso'', JBool False),
              (''mensagem'', JStr (js ''Erro interno do servidor ao enviar email''))]\<rparr>"
proof -
  let ?b = "\<lparr>nome = JStr (js ''Ana''), email = JStr (js ''ana@example.com'')\<rparr>"
  have v: "validacoes ?b = Normal ()"
    by (simp add: validacoes_def emailRegex_def js_def is_white_space_def trim_def)
  have t: "trim (js ''Ana'') = js ''Ana''" "trim (js ''ana@example.com'') = js ''ana@example.com''"
    by (simp_all add: trim_def js_def is_white_space_def)
  have g1: "send_failed (Rejects (JStr (js ''provider down'')))"
    by (simp add: send_failed_def)
  have g2: "send_failed (Resolves (JObj [(js ''data'', JNull),
       (js ''error'', JObj [(js ''message'', JStr (js ''invalid api key''))])]))"
    by (simp add: send_failed_def js_def)
  have p: "get_prop (JObj [(js ''data'', JNull),
       (js ''error'', JObj [(js ''message'', JStr (js ''invalid api key''))])]) (js ''error'')
      = Some (JObj [(js ''message'', JStr (js ''invalid api key''))])"
    by (simp add: js_def)
  have c: "js '' Enviando boas-vindas para: '' @ js ''Ana'' @ js '' ('' @ js ''ana@example.com'' @ js '')''
      = js '' Enviando boas-vindas para: Ana (ana@example.com)''"
    "js ''Falha no envio: '' @ js ''invalid api key'' = js ''Falha no envio: invalid api key''"
    by (simp_all add: js_def)
  have i: "internal_error =
     \<lparr>status = 500,
      body = [(''sucesso'', JBool False),
              (''mensagem'', JStr (js ''Erro interno do servidor ao enviar email''))]\<rparr>"
    by (simp add: internal_error_def json_response_def)
  have a1: "answer (send_welcome mensagem from_env stub_throws ?b) = internal_error"
    and e1: "events (send_welcome mensagem from_env stub_throws ?b) =
        [ConsoleLog ([0xD83D, 0xDCE7] @ js '' Enviando boas-vindas para: Ana (ana@example.com)''),
         SendCall (build_message from_env (js ''ana@example.com'') (personalizar mensagem (js ''Ana''))),
         ConsoleError ([0x274C] @ js '' Erro no servidor:'')
           (Exception (Rejected (JStr (js ''provider down''))))]"
    using C8_send_failure [OF v, of "js ''Ana''" "js ''ana@example.com''" stub_throws from_env mensagem
        "JStr (js ''provider down'')"] g1 t c
    by (simp_all add: stub_throws_def)
  have a2: "answer (send_welcome mensagem from_env stub_error ?b) = internal_error"
    and e2: "events (send_welcome mensagem from_env stub_error ?b) =
        [ConsoleLog ([0xD83D, 0xDCE7] @ js '' Enviando boas-vindas para: Ana (ana@example.com)''),
         SendCall (build_message from_env (js ''ana@example.com'') (personalizar mensagem (js ''Ana''))),
         ConsoleError ([0x274C] @ js '' Erro ao enviar email:'')
           (Value (JObj [(js ''message'', JStr (js ''invalid api key''))])),
         ConsoleError ([0x274C] @ js '' Erro no servidor:'')
           (Exception (Error (js ''Falha no envio: invalid api key'')))]"
    using C8_send_failure [OF v, of "js ''Ana''" "js ''ana@example.com''" stub_error from_env mensagem _
        "JObj [(js ''data'', JNull),
           (js ''error'', JObj [(js ''message'', JStr (js ''invalid api key''))])]"
        "JObj [(js ''message'', JStr (js ''invalid api key''))]"] g2 p t c
    by (simp_all add: stub_error_def js_eq_Nil)
  have o1: "send_welcome mensagem from_env stub_throws ?b =
      \<lparr>answer = answer (send_welcome mensagem from_env stub_throws ?b),
       events = events (send_welcome mensagem from_env stub_throws ?b)\<rparr>"
    and o2: "send_welcome mensagem from_env stub_error ?b =
      \<lparr>answer = answer (send_welcome mensagem from_env stub_error ?b),
       events = events (send_welcome mensagem from_env stub_error ?b)\<rparr>"
    by simp_all
  show ?thesis
    using v g1 g2 i o1 o2 by (simp only: a1 a2 e1 e2 simp_thms)
qed

subsection \<open>C9: a successful send\<close>

text \<open>
  C9: for every validated request with a string name and a string email, if the send
  capability succeeds with the message id \<open>i\<close>, the response has status 200 and the
  body \<open>sucesso\<close> true, a \<open>mensagem\<close> that contains the submitted name, and \<open>emailId\<close>
  equal to \<open>i\<close>. In particular the name \<open>Ana\<close> with the address \<open>ana@example.com\<close>
  against a capability that succeeds with \<open>abc123\<close> gives 200, a message containing
  \<open>Ana\<close>, and the id \<open>abc123\<close>.
\<close>

theorem C9_success_response:
  assumes "validacoes b = Normal ()" and "nome b = JStr n" and "email b = JStr e"
    and "\<forall>msg. succeeds_with (send msg) i"
  shows "answer (send_welcome m from_email send b) =
           \<lparr>status = 200,
            body = [(''sucesso'', JBool True),
                    (''mensagem'', JStr (js ''Boas-vindas enviadas para '' @ n
                                        @ js ''! Verifique seu email.'')),
                    (''emailId'', JStr i)]\<rparr>"
proof -
  let ?msg = "build_message from_email (trim e) (personalizar m (trim n))"
  from assms(4) have "succeeds_with (send ?msg) i" by blast
  then obtain v dat err where r: "send ?msg = Resolves v"
      "get_prop v (js ''data'') = Some dat" "get_prop v (js ''error'') = Some err"
      "\<not> truthy err" "get_prop dat (js ''id'') = Some (JStr i)"
    by (auto simp: succeeds_with_def split: send_result.splits option.splits)
  then have "\<exists>evs. after_send n (send ?msg) =
      (evs, Normal \<lparr>status = 200,
            body = [(''sucesso'', JBool True),
                    (''mensagem'', JStr (js ''Boas-vindas enviadas para '' @ n
                                        @ js ''! Verifique seu email.'')),
                    (''emailId'', JStr i)]\<rparr>)"
    by (simp add: after_send_def json_response_def)
  then obtain evs where "after_send n (send ?msg) =
      (evs, Normal \<lparr>status = 200,
            body = [(''sucesso'', JBool True),
                    (''mensagem'', JStr (js ''Boas-vindas enviadas para '' @ n
                                        @ js ''! Verifique seu email.'')),
                    (''emailId'', JStr i)]\<rparr>)"
    by blast
  with assms(1,2,3) show ?thesis
    by (simp add: send_welcome_def try_block_def)
qed

theorem C9_success_response_witness:
  "validacoes \<lparr>nome = JStr (js ''Ana''), email = JStr (js ''ana@example.com'')\<rparr> = Normal () \<and>
   succeeds_with
      (Resolves (JObj [(js ''data'', JObj [(js ''id'', JStr (js ''abc123''))]), (js ''error'', JNull)]))
      (js ''abc123'') \<and>
   answer (send_welcome mensagem from_env stub_abc123
       \<lparr>nome = JStr (js ''Ana''), email = JStr (js ''ana@example.com'')\<rparr>) =
     \<lparr>status = 200,
      body = [(''sucesso'', JBool True),
              (''mensagem'', JStr (js ''Boas-vindas enviadas para Ana! Verifique seu email.'')),
              (''emailId'', JStr (js ''abc123''))]\<rparr>"
proof -
  have v: "validacoes \<lparr>nome = JStr (js ''Ana''), email = JStr (js ''ana@example.com'')\<rparr> = Normal ()"
    by (simp add: validacoes_def emailRegex_def js_def is_white_space_def trim_def)
  have s: "\<forall>msg. succeeds_with (stub_abc123 msg) (js ''abc123'')"
    by (simp add: succeeds_with_def stub_abc123_def js_def)
  have c: "js ''Boas-vindas enviadas para '' @ js ''Ana'' @ js ''! Verifique seu email.''
      = js ''Boas-vindas enviadas para Ana! Verifique seu email.''"
    by (simp add: js_def)
  have g: "succeeds_with
      (Resolves (JObj [(js ''data'', JObj [(js ''id'', JStr (js ''abc123''))]), (js ''error'', JNull)]))
      (js ''abc123'')"
    by (simp add: succeeds_with_def js_def)
  show ?thesis
    using v g C9_success_response [OF v _ _ s, of "js ''Ana''" "js ''ana@example.com''" mensagem from_env] c
    by simp
qed

subsection \<open>C10: a name that is not a string\<close>

text \<open>
  C10: for every body whose name is truthy but not a string and whose email passes the
  format test, \<open>nome.trim()\<close> throws, the \<open>catch\<close> block logs the TypeError, and the
  response is the 500 server-error response, not a 400 one; nothing is sent.
\<close>

theorem C10_non_string_name:
  assumes "truthy (nome b)" and "\<forall>s. nome b \<noteq> JStr s" and "truthy (email b)"
    and "to_string (email b) = Some e" and "regex_test emailRegex e"
  shows "send_welcome m from_email send b =
           \<lparr>answer = internal_error,
            events = [ConsoleError ([0x274C] @ js '' Erro no servidor:'') (Exception TypeError)]\<rparr> \<and>
         status internal_error = 500"
proof -
  from assms(2) have "call_trim (nome b) = None" by (cases "nome b") simp_all
  with assms have "validacoes b = Throw TypeError" by (simp add: validacoes_def)
  then show ?thesis by (simp add: send_welcome_Throw status_internal_error)
qed

theorem C10_non_string_name_witness:
  "truthy (JNum 5) \<and> truthy (JStr (js ''ana@example.com'')) \<and>
   regex_test emailRegex (js ''ana@example.com'') \<and>
   send_welcome mensagem from_env stub_abc123 \<lparr>nome = JNum 5, email = JStr (js ''ana@example.com'')\<rparr> =
     \<lparr>answer = internal_error,
      events = [ConsoleError ([0x274C] @ js '' Erro no servidor:'') (Exception TypeError)]\<rparr> \<and>
   status internal_error = 500"
proof -
  have re: "regex_test emailRegex (js ''ana@example.com'')"
    by (simp add: emailRegex_def js_def is_white_space_def)
  have ne: "js ''ana@example.com'' \<noteq> []" by (simp add: js_def)
  show ?thesis
    using C10_non_string_name [of "\<lparr>nome = JNum 5, email = JStr (js ''ana@example.com'')\<rparr>"
        "js ''ana@example.com''" mensagem from_env stub_abc123] re ne
    by simp
qed

end
